theory Spec2Isabelle
  imports Main "HOL-Library.AList"
begin

section \<open>Python values, errors and text operations\<close>

text \<open>
  The program is Python 2: text is a byte string, modelled as \<^typ>\<open>string\<close>. The
  operations below are the string methods and regular expressions the program calls,
  each written out as a recursive function.
\<close>

datatype error = KeyError | TypeError | IndexError

text \<open>A count is an integer (the section counters) or text (a regex capture).\<close>

datatype pyval = PyInt int | PyStr string

text \<open>
  The change summary is a dict from category name to a one-field dict
  \<^verbatim>\<open>{"count": v}\<close>; the model keeps the value \<open>v\<close> for each category,
  in an association list.
\<close>

type_synonym changes = "(string \<times> pyval) list"

definition NL :: char where
  "NL = CHR 0x0A"

definition startswith :: "string \<Rightarrow> string \<Rightarrow> bool" where
  "startswith p s = (take (length p) s = p)"

text \<open>\<^verbatim>\<open>s.split("\n")\<close>: always at least one piece.\<close>

fun split_nl :: "string \<Rightarrow> string list" where
  "split_nl [] = [[]]"
| "split_nl (c # cs) =
     (if c = CHR 0x0A then [] # split_nl cs
      else (case split_nl cs of [] \<Rightarrow> [[c]] | l # ls \<Rightarrow> (c # l) # ls))"

text \<open>\<^verbatim>\<open>s.find(sub)\<close>: the index of the first occurrence, or -1.\<close>

fun str_find :: "string \<Rightarrow> string \<Rightarrow> int" where
  "str_find sub [] = (if sub = [] then 0 else -1)"
| "str_find sub (c # cs) =
     (if startswith sub (c # cs) then 0
      else (let r = str_find sub cs in if r = -1 then -1 else r + 1))"

text \<open>\<^verbatim>\<open>s.strip(chars)\<close>: drops the given characters from both ends.\<close>

definition str_strip :: "string \<Rightarrow> string \<Rightarrow> string" where
  "str_strip chars s =
     rev (dropWhile (\<lambda>c. c \<in> set chars) (rev (dropWhile (\<lambda>c. c \<in> set chars) s)))"

text \<open>\<^verbatim>\<open>s.strip()\<close>: the whitespace of Python 2 byte strings.\<close>

definition whitespace :: string where
  "whitespace = [CHR 0x20, CHR 0x09, CHR 0x0A, CHR 0x0D, CHR 0x0B, CHR 0x0C]"

text \<open>\<^verbatim>\<open>str(n)\<close> of an integer, in decimal.\<close>

fun str_nat :: "nat \<Rightarrow> string" where
  "str_nat n =
     (if n < 10 then [''0123456789'' ! n]
      else str_nat (n div 10) @ [''0123456789'' ! (n mod 10)])"

definition str_int :: "int \<Rightarrow> string" where
  "str_int i = (if i < 0 then ''-'' @ str_nat (nat (- i)) else str_nat (nat i))"

fun str_of :: "pyval \<Rightarrow> string" where
  "str_of (PyInt i) = str_int i"
| "str_of (PyStr s) = s"

text \<open>Indexing a tuple of regex groups: IndexError out of range.\<close>

definition tuple_get :: "'a list \<Rightarrow> nat \<Rightarrow> error + 'a" where
  "tuple_get xs i = (if i < length xs then Inr (xs ! i) else Inl IndexError)"

subsection \<open>The dict operations\<close>

definition dict_in :: "string \<Rightarrow> changes \<Rightarrow> bool" where
  "dict_in k d = (map_of d k \<noteq> None)"

definition dict_set :: "changes \<Rightarrow> string \<Rightarrow> pyval \<Rightarrow> changes" where
  "dict_set d k v = AList.update k v d"

text \<open>
  \<^verbatim>\<open>d[k]["count"] += 1\<close>: KeyError when \<open>k\<close> is missing, TypeError when the count
  is text.
\<close>

definition dict_incr :: "changes \<Rightarrow> string \<Rightarrow> error + changes" where
  "dict_incr d k =
     (case map_of d k of
        None \<Rightarrow> Inl KeyError
      | Some (PyInt n) \<Rightarrow> Inr (AList.update k (PyInt (n + 1)) d)
      | Some (PyStr s) \<Rightarrow> Inl TypeError)"

section \<open>HgInfo\<close>

text \<open>
  Every function takes the captured output of the command it runs
  (\<^verbatim>\<open>self._command(...)\<close>) as its argument.
\<close>

definition HgInfo_isCorrect :: "string \<Rightarrow> bool" where
  "HgInfo_isCorrect output = (length output \<le> 0 \<or> take 5 output \<noteq> ''abort'')"

definition HgInfo_getCurrentBranch :: "string \<Rightarrow> error + string option" where
  "HgInfo_getCurrentBranch output = Inr (Some (str_strip whitespace output))"

text \<open>The two guarded increments of one loop iteration.\<close>

definition hg_count :: "string \<Rightarrow> changes \<Rightarrow> error + changes" where
  "hg_count k result =
     dict_incr (if \<not> dict_in k result then dict_set result k (PyInt 0) else result) k"

definition hg_line :: "changes \<Rightarrow> string \<Rightarrow> error + changes" where
  "hg_line result line =
     (case line of
        [] \<Rightarrow> Inr result
      | c # _ \<Rightarrow>
          (case (if c = CHR ''?'' then hg_count ''untracked'' result else Inr result) of
             Inl e \<Rightarrow> Inl e
           | Inr r \<Rightarrow> (if c = CHR ''M'' then hg_count ''uncommitted'' r else Inr r)))"

fun hg_loop :: "changes \<Rightarrow> string list \<Rightarrow> error + changes" where
  "hg_loop result [] = Inr result"
| "hg_loop result (l # ls) =
     (case hg_line result l of Inl e \<Rightarrow> Inl e | Inr r \<Rightarrow> hg_loop r ls)"

definition HgInfo_getChanges :: "string \<Rightarrow> error + changes" where
  "HgInfo_getChanges output = hg_loop [] (split_nl output)"

section \<open>GitInfo\<close>

definition GitInfo_isCorrect :: "string \<Rightarrow> bool" where
  "GitInfo_isCorrect output = (length output > 0 \<and> take 5 output \<noteq> ''fatal'')"

text \<open>
  \<^verbatim>\<open>re.search(r"(\*) (.*)", output)\<close>: the leftmost asterisk followed by a space,
  anywhere in the text; the second group runs to the end of that line (a dot matches
  no newline). The result is the tuple of groups.
\<close>

fun re_search_star :: "string \<Rightarrow> string list option" where
  "re_search_star [] = None"
| "re_search_star (c # cs) =
     (if c = CHR ''*'' \<and> startswith '' '' cs
      then Some [''*'', takeWhile (\<lambda>x. x \<noteq> CHR 0x0A) (tl cs)]
      else re_search_star cs)"

text \<open>A function that ends without \<^verbatim>\<open>return\<close> gives \<^verbatim>\<open>None\<close>.\<close>

definition GitInfo_getCurrentBranch :: "string \<Rightarrow> error + string option" where
  "GitInfo_getCurrentBranch output =
     (if length output > 0 then
        (case re_search_star output of
           Some groups \<Rightarrow>
             (case tuple_get groups 1 of Inl e \<Rightarrow> Inl e | Inr b \<Rightarrow> Inr (Some b))
         | None \<Rightarrow> Inr None)
      else Inr None)"

text \<open>\<^verbatim>\<open>re.match(r'^[A_Z]', line)\<close>: the class holds the three characters A, _ and Z.\<close>

definition re_match_A_Z :: "string \<Rightarrow> bool" where
  "re_match_A_Z line = (case line of [] \<Rightarrow> False | c # _ \<Rightarrow> c \<in> set ''A_Z'')"

definition use_git :: string where
  "use_git = ''(use '' @ [CHR 0x22] @ ''git''"

text \<open>One iteration of the scanning loop; the state is \<open>(mode, result)\<close>.\<close>

definition git_line :: "string \<times> changes \<Rightarrow> string \<Rightarrow> error + string \<times> changes" where
  "git_line st l =
     (let mode = fst st; result = snd st; line = str_strip ''# '' l in
      if str_find ''Untracked files:'' line > -1
        then Inr (''untracked'', dict_set result ''untracked'' (PyInt 0))
      else if str_find ''Changes not staged for commit:'' line > -1
        then Inr (''unstaged'', dict_set result ''unstaged'' (PyInt 0))
      else if str_find ''Changes to be committed:'' line > -1
        then Inr (''uncommitted'', dict_set result ''uncommitted'' (PyInt 0))
      else if re_match_A_Z line
        then Inr (''none'', result)
      else if length line > 0 \<and> str_find use_git line = -1 \<and> mode \<noteq> ''none''
        then (case dict_incr result mode of Inl e \<Rightarrow> Inl e | Inr r \<Rightarrow> Inr (mode, r))
      else Inr (mode, result))"

fun git_loop :: "string \<times> changes \<Rightarrow> string list \<Rightarrow> error + string \<times> changes" where
  "git_loop st [] = Inr st"
| "git_loop st (l # ls) =
     (case git_line st l of Inl e \<Rightarrow> Inl e | Inr st' \<Rightarrow> git_loop st' ls)"

definition is_alnum :: "char \<Rightarrow> bool" where
  "is_alnum c =
     (let n = (of_char c :: nat)
      in (97 \<le> n \<and> n \<le> 122) \<or> (65 \<le> n \<and> n \<le> 90) \<or> (48 \<le> n \<and> n \<le> 57))"

definition is_digit :: "char \<Rightarrow> bool" where
  "is_digit c = (let n = (of_char c :: nat) in 48 \<le> n \<and> n \<le> 57)"

text \<open>
  The pattern \<^verbatim>\<open>LIT[a-zA-Z0-9]+' by ([0-9]+) commits?\<close> matched at the start of a
  text, \<open>lit\<close> being its literal head up to \<^verbatim>\<open>origin/\<close>. Each greedy run is followed
  by a character outside its class, so only the longest run can match; the optional
  \<^verbatim>\<open>s\<close> never fails. The result is the tuple of groups.
\<close>

definition by_text :: string where
  "by_text = [CHR 0x27] @ '' by ''"

definition match_origin :: "string \<Rightarrow> string \<Rightarrow> string list option" where
  "match_origin lit s =
     (if \<not> startswith lit s then None
      else
        (let r1 = drop (length lit) s;
             ref = takeWhile is_alnum r1;
             r2 = dropWhile is_alnum r1
         in if ref = [] \<or> \<not> startswith by_text r2 then None
            else
              (let r3 = drop (length by_text) r2;
                   num = takeWhile is_digit r3;
                   r4 = dropWhile is_digit r3
               in if num = [] \<or> \<not> startswith '' commit'' r4 then None
                  else Some [num])))"

text \<open>\<^verbatim>\<open>re.search\<close> of that pattern: the match at the leftmost position that has one.\<close>

fun re_search_origin :: "string \<Rightarrow> string \<Rightarrow> string list option" where
  "re_search_origin lit [] = match_origin lit []"
| "re_search_origin lit (c # cs) =
     (case match_origin lit (c # cs) of
        Some g \<Rightarrow> Some g
      | None \<Rightarrow> re_search_origin lit cs)"

definition behind_lit :: string where
  "behind_lit = ''Your branch is behind '' @ [CHR 0x27] @ ''origin/''"

definition ahead_lit :: string where
  "ahead_lit = ''Your branch is ahead of '' @ [CHR 0x27] @ ''origin/''"

text \<open>The two searches after the loop: \<^verbatim>\<open>result[key] = {"count": groups[0]}\<close>.\<close>

definition git_origin :: "string \<Rightarrow> string \<Rightarrow> string \<Rightarrow> changes \<Rightarrow> error + changes" where
  "git_origin lit key output result =
     (case re_search_origin lit output of
        None \<Rightarrow> Inr result
      | Some groups \<Rightarrow>
          (case tuple_get groups 0 of
             Inl e \<Rightarrow> Inl e
           | Inr g \<Rightarrow> Inr (dict_set result key (PyStr g))))"

definition GitInfo_getChanges :: "string \<Rightarrow> error + changes" where
  "GitInfo_getChanges output =
     (case git_loop (''none'', []) (split_nl output) of
        Inl e \<Rightarrow> Inl e
      | Inr st \<Rightarrow>
          (case git_origin behind_lit ''behind'' output (snd st) of
             Inl e \<Rightarrow> Inl e
           | Inr r \<Rightarrow> git_origin ahead_lit ''ahead'' output r))"

section \<open>The backends, the factory and the rendering\<close>

text \<open>
  The environment of one run: what each external command prints in the current
  directory, and the user, host and directory names.
\<close>

record env =
  hg_status :: string
  hg_branch :: string
  git_status :: string
  git_branch :: string
  user :: string
  host :: string
  cwd :: string

datatype backend = HgInfo | GitInfo

definition Color_RED :: string where "Color_RED = CHR 0x1B # ''[31m''"
definition Color_BLUE :: string where "Color_BLUE = CHR 0x1B # ''[34m''"
definition Color_GREEN :: string where "Color_GREEN = CHR 0x1B # ''[32m''"
definition Color_YELLOW :: string where "Color_YELLOW = CHR 0x1B # ''[33m''"
definition Color_RESET :: string where "Color_RESET = CHR 0x1B # ''[37m''"
definition Style_BRIGHT :: string where "Style_BRIGHT = CHR 0x1B # ''[1m''"
definition Style_DIM :: string where "Style_DIM = CHR 0x1B # ''[2m''"
definition Style_NORMAL :: string where "Style_NORMAL = CHR 0x1B # ''[0m''"

fun isCorrect :: "env \<Rightarrow> backend \<Rightarrow> bool" where
  "isCorrect e HgInfo = HgInfo_isCorrect (hg_status e)"
| "isCorrect e GitInfo = GitInfo_isCorrect (git_status e)"

fun getName :: "backend \<Rightarrow> string" where
  "getName HgInfo = ''hg''"
| "getName GitInfo = ''git''"

fun getCurrentBranch :: "env \<Rightarrow> backend \<Rightarrow> error + string option" where
  "getCurrentBranch e HgInfo = HgInfo_getCurrentBranch (hg_branch e)"
| "getCurrentBranch e GitInfo = GitInfo_getCurrentBranch (git_branch e)"

fun getChanges :: "env \<Rightarrow> backend \<Rightarrow> error + changes" where
  "getChanges e HgInfo = HgInfo_getChanges (hg_status e)"
| "getChanges e GitInfo = GitInfo_getChanges (git_status e)"

definition classes :: "backend list" where
  "classes = [HgInfo, GitInfo]"

fun getInfoClass_loop :: "env \<Rightarrow> backend list \<Rightarrow> backend option" where
  "getInfoClass_loop e [] = None"
| "getInfoClass_loop e (c # cs) = (if isCorrect e c then Some c else getInfoClass_loop e cs)"

definition getInfoClass :: "env \<Rightarrow> backend option" where
  "getInfoClass e = getInfoClass_loop e classes"

text \<open>
  The two arrows of the source, as the UTF-8 bytes a UTF-8 console shows:
  \<^verbatim>\<open>_char\<close> decodes them for the console and leaves the text as it is.
\<close>

definition arrow_behind :: string where
  "arrow_behind = [CHR 0xE2, CHR 0x96, CHR 0xBA]"

definition arrow_ahead :: string where
  "arrow_ahead = [CHR 0xE2, CHR 0x97, CHR 0x84]"

definition char_decode :: "string \<Rightarrow> string" where
  "char_decode c = c"

text \<open>\<^verbatim>\<open>"%s" % x\<close> for a value that may be \<^verbatim>\<open>None\<close>.\<close>

fun fmt_s :: "string option \<Rightarrow> string" where
  "fmt_s None = ''None''"
| "fmt_s (Some s) = s"

text \<open>One \<^verbatim>\<open>if key in changes: retVal += ...\<close> of the rendering.\<close>

definition add_part :: "changes \<Rightarrow> string \<Rightarrow> string \<Rightarrow> string \<Rightarrow> string" where
  "add_part changes key label retVal =
     (case map_of changes key of
        None \<Rightarrow> retVal
      | Some v \<Rightarrow> retVal @ Style_DIM @ label @ str_of v)"

definition format_info :: "string \<Rightarrow> string option \<Rightarrow> changes \<Rightarrow> string" where
  "format_info name branch changes =
     (let retVal = Color_YELLOW @ ''('' @ name @ '':'' @ fmt_s branch;
          retVal =
            (if changes \<noteq> [] then
               (let retVal = add_part changes ''behind'' ('',origin'' @ char_decode arrow_behind) retVal;
                    retVal = add_part changes ''ahead'' ('',origin'' @ char_decode arrow_ahead) retVal;
                    retVal = add_part changes ''untracked'' '',untracked:'' retVal;
                    retVal = add_part changes ''unstaged'' '',unstaged:'' retVal;
                    retVal = add_part changes ''uncommitted'' '',uncommitted:'' retVal
                in retVal)
             else retVal)
      in retVal @ Style_BRIGHT @ '')'')"

text \<open>The method \<^verbatim>\<open>getSCMInfo\<close> of a backend: the branch first, then the changes.\<close>

definition AbstractDistributedInfo_getSCMInfo :: "env \<Rightarrow> backend \<Rightarrow> error + string" where
  "AbstractDistributedInfo_getSCMInfo e b =
     (case getCurrentBranch e b of
        Inl err \<Rightarrow> Inl err
      | Inr branch \<Rightarrow>
          (case getChanges e b of
             Inl err \<Rightarrow> Inl err
           | Inr changes \<Rightarrow> Inr (format_info (getName b) branch changes)))"

text \<open>The module's function \<^verbatim>\<open>getSCMInfo\<close>.\<close>

definition getSCMInfo :: "env \<Rightarrow> error + string" where
  "getSCMInfo e =
     (case getInfoClass e of
        Some scm \<Rightarrow> AbstractDistributedInfo_getSCMInfo e scm
      | None \<Rightarrow> Inr '''')"

definition getDirectoryInfo :: "env \<Rightarrow> string" where
  "getDirectoryInfo e = Color_BLUE @ cwd e"

definition getUserInfo :: "env \<Rightarrow> string" where
  "getUserInfo e =
     Style_BRIGHT @ (if user e = ''root'' then Color_RED else Color_GREEN) @ user e"

definition getHostInfo :: "env \<Rightarrow> string" where
  "getHostInfo e = host e"

definition user_line :: "env \<Rightarrow> string" where
  "user_line e =
     getUserInfo e @ Style_DIM @ ''@'' @ getHostInfo e @ '':'' @ Style_BRIGHT
       @ getDirectoryInfo e @ Style_NORMAL @ Color_RESET"

text \<open>
  The main program: the lines it prints, in order. The second call of
  \<^verbatim>\<open>getSCMInfo\<close> runs in the same environment as the first.
\<close>

definition main :: "env \<Rightarrow> error + string list" where
  "main e =
     (case getSCMInfo e of
        Inl err \<Rightarrow> Inl err
      | Inr scmInfo \<Rightarrow>
          (if length scmInfo > 0 then
             (case getSCMInfo e of
                Inl err \<Rightarrow> Inl err
              | Inr scmInfo2 \<Rightarrow>
                  Inr ['' '', user_line e,
                       Style_BRIGHT @ scmInfo2 @ Style_NORMAL @ Color_RESET])
           else Inr ['' '', user_line e]))"

section \<open>Properties of the parsers, as definitions\<close>

text \<open>A line whose first character is \<open>c\<close>, and how many lines of a text have one.\<close>

definition first_is :: "char \<Rightarrow> string \<Rightarrow> bool" where
  "first_is c line = (case line of [] \<Rightarrow> False | x # _ \<Rightarrow> x = c)"

definition lines_with :: "char \<Rightarrow> string \<Rightarrow> nat" where
  "lines_with c out = length (filter (first_is c) (split_nl out))"

text \<open>The entry of a category counted \<open>n\<close> times by the Mercurial parser.\<close>

definition hg_entry :: "nat \<Rightarrow> pyval option" where
  "hg_entry n = (if n = 0 then None else Some (PyInt (int n)))"

definition hg_rep :: "changes \<Rightarrow> nat \<Rightarrow> nat \<Rightarrow> bool" where
  "hg_rep d u m =
     (\<forall>k. map_of d k =
        (if k = ''untracked'' then hg_entry u
         else if k = ''uncommitted'' then hg_entry m else None))"

text \<open>The invariant of the Git scanning loop.\<close>

definition section_keys :: "string set" where
  "section_keys = {''untracked'', ''unstaged'', ''uncommitted''}"

definition int_counts :: "changes \<Rightarrow> bool" where
  "int_counts d =
     (\<forall>k v. map_of d k = Some v \<longrightarrow> k \<in> section_keys \<and> (\<exists>n. v = PyInt n \<and> 0 \<le> n))"

definition git_inv :: "string \<times> changes \<Rightarrow> bool" where
  "git_inv st =
     (int_counts (snd st) \<and>
      (fst st = ''none'' \<or> (\<exists>n. map_of (snd st) (fst st) = Some (PyInt n))))"

text \<open>A count as the Git parser leaves it: a section counter, or the digits of a capture.\<close>

definition digits :: "string \<Rightarrow> bool" where
  "digits s = (s \<noteq> [] \<and> list_all is_digit s)"

definition git_count :: "string \<Rightarrow> pyval \<Rightarrow> bool" where
  "git_count k v =
     (case v of
        PyInt n \<Rightarrow> k \<in> section_keys \<and> 0 \<le> n
      | PyStr s \<Rightarrow> (k = ''behind'' \<or> k = ''ahead'') \<and> digits s)"

section \<open>Lemmas on the dict and the two parsers\<close>

lemma map_of_dict_set:
  "map_of (dict_set d k v) k' = (if k' = k then Some v else map_of d k')"
  by (simp add: dict_set_def update_conv')

lemma dict_incr_int:
  "map_of d k = Some (PyInt n) \<Longrightarrow> dict_incr d k = Inr (AList.update k (PyInt (n + 1)) d)"
  by (simp add: dict_incr_def)

subsection \<open>Mercurial\<close>

lemma hg_count_untracked:
  "hg_rep d u m \<Longrightarrow> \<exists>r. hg_count ''untracked'' d = Inr r \<and> hg_rep r (Suc u) m"
  by (cases "u = 0")
     (auto simp: hg_rep_def hg_count_def hg_entry_def dict_in_def dict_incr_def
                 dict_set_def update_conv')

lemma hg_count_uncommitted:
  "hg_rep d u m \<Longrightarrow> \<exists>r. hg_count ''uncommitted'' d = Inr r \<and> hg_rep r u (Suc m)"
  by (cases "m = 0")
     (auto simp: hg_rep_def hg_count_def hg_entry_def dict_in_def dict_incr_def
                 dict_set_def update_conv')

lemma hg_line_rep:
  assumes "hg_rep d u m"
  shows "\<exists>r. hg_line d l = Inr r \<and>
           hg_rep r (u + (if first_is (CHR ''?'') l then 1 else 0))
                    (m + (if first_is (CHR ''M'') l then 1 else 0))"
proof (cases l)
  case Nil
  with assms show ?thesis by (simp add: hg_line_def first_is_def)
next
  case (Cons c cs)
  consider "c = CHR ''?''" | "c = CHR ''M''" | "c \<noteq> CHR ''?''" "c \<noteq> CHR ''M''" by blast
  then show ?thesis
  proof cases
    case 1
    with hg_count_untracked [OF assms] Cons show ?thesis
      by (auto simp: hg_line_def first_is_def)
  next
    case 2
    with hg_count_uncommitted [OF assms] Cons show ?thesis
      by (auto simp: hg_line_def first_is_def)
  next
    case 3
    with assms Cons show ?thesis by (simp add: hg_line_def first_is_def)
  qed
qed

lemma hg_loop_rep:
  "hg_rep d u m \<Longrightarrow>
   \<exists>r. hg_loop d ls = Inr r \<and>
     hg_rep r (u + length (filter (first_is (CHR ''?'')) ls))
              (m + length (filter (first_is (CHR ''M'')) ls))"
proof (induction ls arbitrary: d u m)
  case Nil
  then show ?case by simp
next
  case (Cons l ls)
  from hg_line_rep [OF Cons.prems, of l] obtain r1 where
    r1: "hg_line d l = Inr r1" and
    h1: "hg_rep r1 (u + (if first_is (CHR ''?'') l then 1 else 0))
                   (m + (if first_is (CHR ''M'') l then 1 else 0))" by blast
  from Cons.IH [OF h1] r1 show ?case by (auto simp: add.assoc)
qed

lemma hg_rep_init: "hg_rep [] 0 0"
  by (simp add: hg_rep_def hg_entry_def)

lemma HgInfo_getChanges_rep:
  "\<exists>r. HgInfo_getChanges out = Inr r \<and>
     hg_rep r (lines_with (CHR ''?'') out) (lines_with (CHR ''M'') out)"
  using hg_loop_rep [OF hg_rep_init, of "split_nl out"]
  by (simp add: HgInfo_getChanges_def lines_with_def)

subsection \<open>Git: the loop keeps its invariant and never raises\<close>

lemma int_counts_set:
  "int_counts d \<Longrightarrow> k \<in> section_keys \<Longrightarrow> 0 \<le> n \<Longrightarrow> int_counts (dict_set d k (PyInt n))"
  by (auto simp: int_counts_def map_of_dict_set)

lemma git_line_inv:
  assumes "git_inv st"
  shows "\<exists>st'. git_line st l = Inr st' \<and> git_inv st'"
proof -
  obtain mode result where st: "st = (mode, result)" by (cases st)
  from assms st have ic: "int_counts result"
    and md: "mode = ''none'' \<or> (\<exists>n. map_of result mode = Some (PyInt n))"
    by (simp_all add: git_inv_def)
  have set_ok: "\<And>k. k \<in> section_keys \<Longrightarrow> git_inv (k, dict_set result k (PyInt 0))"
    using ic by (simp add: git_inv_def int_counts_set map_of_dict_set)
  have none_ok: "git_inv (''none'', result)"
    using ic by (simp add: git_inv_def)
  have same_ok: "git_inv (mode, result)"
    using assms st by simp
  have incr_ok: "mode \<noteq> ''none'' \<Longrightarrow>
      \<exists>r. dict_incr result mode = Inr r \<and> git_inv (mode, r)"
  proof -
    assume "mode \<noteq> ''none''"
    with md obtain n where n: "map_of result mode = Some (PyInt n)" by blast
    with ic have k: "mode \<in> section_keys" and n0: "0 \<le> n"
      by (auto simp: int_counts_def)
    have "int_counts (dict_set result mode (PyInt (n + 1)))"
      using ic k n0 by (intro int_counts_set) auto
    then have "git_inv (mode, AList.update mode (PyInt (n + 1)) result)"
      by (simp add: git_inv_def dict_set_def update_conv')
    with n show ?thesis by (auto simp: dict_incr_int)
  qed
  show ?thesis
    unfolding st git_line_def Let_def fst_conv snd_conv
    using set_ok none_ok same_ok incr_ok
    by (auto simp: section_keys_def)
qed

lemma git_loop_inv:
  "git_inv st \<Longrightarrow> \<exists>st'. git_loop st ls = Inr st' \<and> git_inv st'"
proof (induction ls arbitrary: st)
  case Nil
  then show ?case by simp
next
  case (Cons l ls)
  from git_line_inv [OF Cons.prems, of l] obtain st1
    where s1: "git_line st l = Inr st1" and i1: "git_inv st1" by blast
  from Cons.IH [OF i1] s1 show ?case by simp
qed

lemma git_inv_init: "git_inv (''none'', [])"
  by (simp add: git_inv_def int_counts_def)

lemma match_origin_groups:
  "match_origin lit s = Some g \<Longrightarrow> \<exists>num. g = [num] \<and> digits num"
  by (auto simp: match_origin_def Let_def digits_def list_all_iff
           split: if_splits dest: set_takeWhileD)

lemma re_search_origin_groups:
  "re_search_origin lit s = Some g \<Longrightarrow> \<exists>num. g = [num] \<and> digits num"
  by (induction s) (auto split: option.splits dest: match_origin_groups)

lemma git_origin_total:
  "\<exists>r. git_origin lit key out result = Inr r \<and>
     (r = result \<or> (\<exists>num. r = dict_set result key (PyStr num) \<and> digits num))"
  by (auto simp: git_origin_def tuple_get_def split: option.splits
           dest!: re_search_origin_groups)

lemma GitInfo_getChanges_counts:
  "\<exists>r. GitInfo_getChanges out = Inr r \<and> (\<forall>k v. map_of r k = Some v \<longrightarrow> git_count k v)"
proof -
  from git_loop_inv [OF git_inv_init, of "split_nl out"] obtain st
    where l: "git_loop (''none'', []) (split_nl out) = Inr st" and i: "git_inv st" by blast
  have c0: "\<forall>k v. map_of (snd st) k = Some v \<longrightarrow> git_count k v"
  proof (intro allI impI)
    fix k v
    assume "map_of (snd st) k = Some v"
    with i obtain n where "k \<in> section_keys" "v = PyInt n" "0 \<le> n"
      unfolding git_inv_def int_counts_def by blast
    then show "git_count k v" by (simp add: git_count_def)
  qed
  from git_origin_total [of behind_lit "''behind''" out "snd st"] obtain r1
    where b: "git_origin behind_lit ''behind'' out (snd st) = Inr r1"
      and r1: "r1 = snd st \<or> (\<exists>num. r1 = dict_set (snd st) ''behind'' (PyStr num) \<and> digits num)"
    by blast
  from r1 c0 have c1: "\<forall>k v. map_of r1 k = Some v \<longrightarrow> git_count k v"
    by (auto simp: map_of_dict_set git_count_def split: if_splits)
  from git_origin_total [of ahead_lit "''ahead''" out r1] obtain r2
    where a: "git_origin ahead_lit ''ahead'' out r1 = Inr r2"
      and r2: "r2 = r1 \<or> (\<exists>num. r2 = dict_set r1 ''ahead'' (PyStr num) \<and> digits num)"
    by blast
  from r2 c1 have c2: "\<forall>k v. map_of r2 k = Some v \<longrightarrow> git_count k v"
    by (auto simp: map_of_dict_set git_count_def split: if_splits)
  from l b a c2 show ?thesis by (simp add: GitInfo_getChanges_def)
qed

lemma GitInfo_getCurrentBranch_total: "\<exists>b. GitInfo_getCurrentBranch out = Inr b"
proof -
  have "re_search_star s = Some g \<Longrightarrow> length g = 2" for s g
    by (induction s) (auto split: if_splits)
  then show ?thesis
    by (auto simp: GitInfo_getCurrentBranch_def tuple_get_def split: option.splits)
qed

lemma take5_abort: "(take 5 out = ''abort'') = (\<exists>rest. out = ''abort'' @ rest)"
proof
  assume "take 5 out = ''abort''"
  then have "out = ''abort'' @ drop 5 out"
    by (metis append_take_drop_id)
  then show "\<exists>rest. out = ''abort'' @ rest" ..
next
  assume "\<exists>rest. out = ''abort'' @ rest"
  then show "take 5 out = ''abort''" by auto
qed

lemma HgInfo_getChanges_keys:
  "\<exists>r. HgInfo_getChanges out = Inr r \<and> fst ` set r \<subseteq> {''untracked'', ''uncommitted''}"
proof -
  from HgInfo_getChanges_rep [of out] obtain r where
    r: "HgInfo_getChanges out = Inr r" and
    h: "hg_rep r (lines_with (CHR ''?'') out) (lines_with (CHR ''M'') out)" by blast
  have "k \<in> {''untracked'', ''uncommitted''}" if "k \<in> fst ` set r" for k
  proof -
    from that have "map_of r k \<noteq> None" by (simp add: map_of_eq_None_iff)
    with h show ?thesis by (auto simp: hg_rep_def split: if_splits)
  qed
  with r show ?thesis by blast
qed

lemma GitInfo_getChanges_keys:
  "\<exists>r. GitInfo_getChanges out = Inr r \<and>
     fst ` set r \<subseteq> {''behind'', ''ahead'', ''untracked'', ''unstaged'', ''uncommitted''}"
proof -
  from GitInfo_getChanges_counts [of out] obtain r where
    r: "GitInfo_getChanges out = Inr r" and
    c: "\<forall>k v. map_of r k = Some v \<longrightarrow> git_count k v" by blast
  have "k \<in> {''behind'', ''ahead'', ''untracked'', ''unstaged'', ''uncommitted''}"
    if "k \<in> fst ` set r" for k
  proof -
    from that obtain v where "map_of r k = Some v"
      by (metis map_of_eq_None_iff not_Some_eq)
    with c have "git_count k v" by blast
    then show ?thesis by (cases v) (auto simp: git_count_def section_keys_def)
  qed
  with r show ?thesis by blast
qed

section \<open>The claims\<close>

text \<open>
  C4. The Mercurial probe succeeds exactly when the captured output of
  \<^verbatim>\<open>hg status\<close> is empty or does not begin with the five characters
  \<^verbatim>\<open>abort\<close>; so an output that reports a failure in other words, as a parse
  error of the configuration file does, still passes the probe.
\<close>

theorem C4_hg_probe:
  "HgInfo_isCorrect out = (out = [] \<or> \<not> (\<exists>rest. out = ''abort'' @ rest))
   \<and> HgInfo_isCorrect ''hg: parse error at .hg/hgrc:1: x''"
  by (simp add: HgInfo_isCorrect_def take5_abort)

theorem C4_hg_probe_witness:
  "\<not> HgInfo_isCorrect ''abort: no repository found'' \<and> HgInfo_isCorrect ''''"
  using C4_hg_probe [of "''abort: no repository found''"] C4_hg_probe [of "''''"]
  by simp

text \<open>
  C8. For every \<^verbatim>\<open>hg status\<close> text the Mercurial changes extractor returns a
  summary in which \<^verbatim>\<open>untracked\<close> is the number of lines whose first character is
  \<^verbatim>\<open>?\<close> and \<^verbatim>\<open>uncommitted\<close> the number of lines whose first character is
  \<^verbatim>\<open>M\<close> (a category with no such line is absent), and no other category is
  present: empty lines and lines with another first character are ignored. The
  two lines \<^verbatim>\<open>? a.txt\<close> and \<^verbatim>\<open>M b.txt\<close> give untracked 1, uncommitted 1.
\<close>

theorem C8_hg_changes:
  "(\<exists>r. HgInfo_getChanges out = Inr r \<and>
      map_of r ''untracked'' = hg_entry (lines_with (CHR ''?'') out) \<and>
      map_of r ''uncommitted'' = hg_entry (lines_with (CHR ''M'') out) \<and>
      (\<forall>k. k \<noteq> ''untracked'' \<and> k \<noteq> ''uncommitted'' \<longrightarrow> map_of r k = None))
   \<and> HgInfo_getChanges (''? a.txt'' @ [CHR 0x0A] @ ''M b.txt'')
       = Inr [(''untracked'', PyInt 1), (''uncommitted'', PyInt 1)]"
proof
  from HgInfo_getChanges_rep [of out]
  show "\<exists>r. HgInfo_getChanges out = Inr r \<and>
      map_of r ''untracked'' = hg_entry (lines_with (CHR ''?'') out) \<and>
      map_of r ''uncommitted'' = hg_entry (lines_with (CHR ''M'') out) \<and>
      (\<forall>k. k \<noteq> ''untracked'' \<and> k \<noteq> ''uncommitted'' \<longrightarrow> map_of r k = None)"
    by (auto simp: hg_rep_def)
next
  show "HgInfo_getChanges (''? a.txt'' @ [CHR 0x0A] @ ''M b.txt'')
       = Inr [(''untracked'', PyInt 1), (''uncommitted'', PyInt 1)]"
    by (simp add: HgInfo_getChanges_def hg_line_def hg_count_def dict_in_def dict_set_def
        dict_incr_def)
qed

theorem C8_hg_changes_witness:
  "\<exists>r. HgInfo_getChanges (''? a'' @ [CHR 0x0A] @ ''? b'' @ [CHR 0x0A] @ ''A c'' @ [CHR 0x0A, CHR 0x0A] @ ''M d'') = Inr r \<and>
      map_of r ''untracked'' = Some (PyInt 2) \<and>
      map_of r ''uncommitted'' = Some (PyInt 1) \<and>
      map_of r ''unstaged'' = None"
proof -
  let ?x = "''? a'' @ [CHR 0x0A] @ ''? b'' @ [CHR 0x0A] @ ''A c'' @ [CHR 0x0A, CHR 0x0A] @ ''M d''"
  have u: "hg_entry (lines_with (CHR ''?'') ?x) = Some (PyInt 2)"
    by (simp add: lines_with_def first_is_def hg_entry_def)
  have m: "hg_entry (lines_with (CHR ''M'') ?x) = Some (PyInt 1)"
    by (simp add: lines_with_def first_is_def hg_entry_def)
  from C8_hg_changes [of ?x] obtain r where
    "HgInfo_getChanges ?x = Inr r"
    "map_of r ''untracked'' = hg_entry (lines_with (CHR ''?'') ?x)"
    "map_of r ''uncommitted'' = hg_entry (lines_with (CHR ''M'') ?x)"
    "\<forall>k. k \<noteq> ''untracked'' \<and> k \<noteq> ''uncommitted'' \<longrightarrow> map_of r k = None"
    by blast
  with u m show ?thesis by simp
qed

text \<open>
  C9. For every input text the branch and changes extractors of both backends
  return a value and raise nothing: the functions are total, and their result is
  never an error. After any sequence of lines the Git scanning loop is in a state
  whose section is \<^verbatim>\<open>none\<close> or has an integer count entry, so the increment
  finds its key. Whatever the text, the summary holds only the known categories.
\<close>

theorem C9_no_exception:
  "(\<exists>b. HgInfo_getCurrentBranch out = Inr b) \<and>
   (\<exists>r. HgInfo_getChanges out = Inr r \<and>
      fst ` set r \<subseteq> {''untracked'', ''uncommitted''}) \<and>
   (\<exists>b. GitInfo_getCurrentBranch out = Inr b) \<and>
   (\<exists>r. GitInfo_getChanges out = Inr r \<and>
      fst ` set r \<subseteq> {''behind'', ''ahead'', ''untracked'', ''unstaged'', ''uncommitted''}) \<and>
   (\<exists>mode result. git_loop (''none'', []) ls = Inr (mode, result) \<and>
      (mode = ''none'' \<or> (\<exists>n. map_of result mode = Some (PyInt n))))"
proof -
  have a: "\<exists>b. HgInfo_getCurrentBranch out = Inr b"
    by (simp add: HgInfo_getCurrentBranch_def)
  from git_loop_inv [OF git_inv_init, of ls] obtain st where
    "git_loop (''none'', []) ls = Inr st" "git_inv st" by blast
  then have e: "\<exists>mode result. git_loop (''none'', []) ls = Inr (mode, result) \<and>
      (mode = ''none'' \<or> (\<exists>n. map_of result mode = Some (PyInt n)))"
    by (cases st) (simp add: git_inv_def)
  from a HgInfo_getChanges_keys [of out] GitInfo_getCurrentBranch_total [of out]
    GitInfo_getChanges_keys [of out] e
  show ?thesis by blast
qed

theorem C9_no_exception_witness:
  "(\<exists>r. GitInfo_getChanges (''Untracked files:'' @ [CHR 0x0A] @ ''foo'') = Inr r) \<and>
   (\<exists>mode result. git_loop (''none'', []) [''Untracked files:'', ''foo''] = Inr (mode, result))"
  using C9_no_exception [of "''Untracked files:'' @ [CHR 0x0A] @ ''foo''"
      "[''Untracked files:'', ''foo'']"]
  by blast

end
